theory Spec2Isabelle
  imports Complex_Main "HOL-Library.Sublist"
begin

section \<open>Data model of the threshold risk evaluator (src/1.py)\<close>

text \<open>
  The evaluator is the class \<open>PredictiveMaintenance\<close> of \<^verbatim>\<open>src/1.py\<close>. Its methods read
  two attributes of the object, \<open>self.thresholds\<close> and \<open>self.maintenance_history\<close>; the
  model passes both as arguments.

  Numbers. A Python reading is an \<open>int\<close> or a \<open>float\<close>: the two print differently
  (\<open>4\<close> and \<open>4.0\<close>), so the model keeps them apart, and \<open>num_value\<close> is the real number
  either denotes. The evaluator only compares readings with bounds (the order of finite
  doubles is the order of the reals they denote) and adds products
  \<open>risk_factor * weight\<close> with \<open>risk_factor\<close> one of 0.0, 0.5, 1.0; for the configured
  integer weights these sums are exact in binary floating point. Infinities, NaN and the
  rounding of float subtraction are outside the model.
\<close>

datatype pynum = PyInt int | PyFloat real

fun num_value :: "pynum \<Rightarrow> real" where
  "num_value (PyInt i) = of_int i"
| "num_value (PyFloat x) = x"

datatype pyvalue = Num pynum | Str string

text \<open>
  A band entry of a threshold dictionary is a number (\<open>"critical": 80\<close>), a tuple
  (\<open>"warning": (60, 80)\<close>) or, for the branch of \<open>assess_parameter_status\<close> that indexes a
  value which is not a tuple, a list.
\<close>

datatype bound = Scalar real | Tuple "real list" | PyList "real list"

datatype py_error = KeyError string | TypeError | IndexError

datatype status = NORMAL | WARNING | CRITICAL

record sensor_spec =
  normal :: bound
  warning :: bound
  critical :: bound
  weight :: real

type_synonym threshold_table = "string \<rightharpoonup> sensor_spec"

text \<open>
  The table built by \<open>__init__\<close> (lines 16 to 24). Its decimal literals (0.1, 0.7,
  0.9, 1.5, 8.5) are taken at their decimal value.
\<close>

definition thresholds :: threshold_table where
  "thresholds = map_of
    [(''temperature'', \<lparr>normal = Tuple [20, 60], warning = Tuple [60, 80], critical = Scalar 80, weight = 25\<rparr>),
     (''vibration'', \<lparr>normal = Tuple [1/10, 2], warning = Tuple [2, 3], critical = Scalar 3, weight = 20\<rparr>),
     (''pressure'', \<lparr>normal = Tuple [2, 8], warning = Tuple [3/2, 17/2], critical = Tuple [1, 9], weight = 15\<rparr>),
     (''humidity'', \<lparr>normal = Tuple [30, 60], warning = Tuple [60, 70], critical = Scalar 70, weight = 10\<rparr>),
     (''runtime'', \<lparr>normal = Tuple [0, 5000], warning = Tuple [5000, 8000], critical = Scalar 8000, weight = 20\<rparr>),
     (''load'', \<lparr>normal = Tuple [0, 7/10], warning = Tuple [7/10, 9/10], critical = Scalar (9/10), weight = 10\<rparr>),
     (''speed'', \<lparr>normal = Tuple [500, 2000], warning = Tuple [2000, 2500], critical = Scalar 2500, weight = 10\<rparr>)]"

section \<open>Python primitives used by the evaluator\<close>

text \<open>\<open>xs[i]\<close> for a constant index \<open>i \<ge> 0\<close>: IndexError out of range.\<close>

definition item :: "real list \<Rightarrow> nat \<Rightarrow> py_error + real" where
  "item xs i = (if i < length xs then Inr (xs ! i) else Inl IndexError)"

text \<open>\<open>value < x\<close> and \<open>value > x\<close> for a number \<open>x\<close>: a string on the left raises TypeError.\<close>

fun py_less :: "pyvalue \<Rightarrow> real \<Rightarrow> py_error + bool" where
  "py_less (Num v) x = Inr (num_value v < x)"
| "py_less (Str s) x = Inl TypeError"

fun py_greater :: "pyvalue \<Rightarrow> real \<Rightarrow> py_error + bool" where
  "py_greater (Num v) x = Inr (num_value v > x)"
| "py_greater (Str s) x = Inl TypeError"

text \<open>
  \<open>value < t[0] or value > t[1]\<close>, left to right: \<open>t[0]\<close> is read, then compared; the
  second disjunct is evaluated only when the first is false.
\<close>

definition outside :: "pyvalue \<Rightarrow> real list \<Rightarrow> py_error + bool" where
  "outside v t =
     (case item t 0 of Inl e \<Rightarrow> Inl e | Inr lo \<Rightarrow>
      (case py_less v lo of Inl e \<Rightarrow> Inl e | Inr below \<Rightarrow>
       if below then Inr True
       else (case item t 1 of Inl e \<Rightarrow> Inl e | Inr hi \<Rightarrow> py_greater v hi)))"

section \<open>assess_parameter_status\<close>

text \<open>
  Lines 117 to 121: the critical test. A tuple is tested on both sides, anything else is
  compared with \<open>value > threshold["critical"]\<close>, which raises TypeError for a list.
\<close>

definition critical_fires :: "bound \<Rightarrow> pyvalue \<Rightarrow> py_error + bool" where
  "critical_fires c v =
     (case c of
        Tuple t \<Rightarrow> outside v t
      | Scalar x \<Rightarrow> py_greater v x
      | PyList t \<Rightarrow> Inl TypeError)"

text \<open>
  Lines 123 to 127: the warning test. A tuple is tested on both sides; anything else is
  indexed at 1 (\<open>threshold["warning"][1]\<close>), which raises TypeError for a number.
\<close>

definition warning_fires :: "bound \<Rightarrow> pyvalue \<Rightarrow> py_error + bool" where
  "warning_fires w v =
     (case w of
        Tuple t \<Rightarrow> outside v t
      | Scalar x \<Rightarrow> Inl TypeError
      | PyList t \<Rightarrow> (case item t 1 of Inl e \<Rightarrow> Inl e | Inr hi \<Rightarrow> py_greater v hi))"

definition assess_parameter_status ::
  "threshold_table \<Rightarrow> string \<Rightarrow> pyvalue \<Rightarrow> py_error + (status \<times> real)" where
  "assess_parameter_status th param_name v =
     (case th param_name of
        None \<Rightarrow> Inl (KeyError param_name)
      | Some threshold \<Rightarrow>
          (case critical_fires (critical threshold) v of
             Inl e \<Rightarrow> Inl e
           | Inr crit \<Rightarrow>
               if crit then Inr (CRITICAL, 1)
               else (case warning_fires (warning threshold) v of
                       Inl e \<Rightarrow> Inl e
                     | Inr warn \<Rightarrow> if warn then Inr (WARNING, 1/2) else Inr (NORMAL, 0))))"

section \<open>calculate_failure_likelihood\<close>

text \<open>
  An entry of the issues list (lines 142 to 147); \<open>reading\<close> is its \<open>"value"\<close> key.
  The parameter dictionary is an association list in iteration order; the value under
  \<open>"timestamp"\<close> is a string, the others are readings.
\<close>

record issue =
  parameter :: string
  reading :: pyvalue
  status :: status
  risk_contribution :: real

text \<open>
  The loop of lines 135 to 147, with its two variables \<open>likelihood\<close> and \<open>issues\<close>. An
  exception raised in the body leaves the loop and the function.
\<close>

fun accumulate ::
  "threshold_table \<Rightarrow> (string \<times> pyvalue) list \<Rightarrow> real \<Rightarrow> issue list
     \<Rightarrow> py_error + (real \<times> issue list)" where
  "accumulate th [] likelihood issues = Inr (likelihood, issues)"
| "accumulate th ((param_name, v) # rest) likelihood issues =
     (if param_name \<noteq> ''timestamp'' then
        (case assess_parameter_status th param_name v of
           Inl e \<Rightarrow> Inl e
         | Inr (st, risk_factor) \<Rightarrow>
             (case th param_name of
                None \<Rightarrow> Inl (KeyError param_name)
              | Some threshold \<Rightarrow>
                  accumulate th rest (likelihood + risk_factor * weight threshold)
                    (if st \<noteq> NORMAL
                     then issues @ [\<lparr>parameter = param_name, reading = v, status = st,
                                     risk_contribution = risk_factor * weight threshold\<rparr>]
                     else issues)))
      else accumulate th rest likelihood issues)"

text \<open>
  Python's \<open>sorted(xs, key=key, reverse=True)\<close>: the list is reversed, sorted by a stable
  ascending sort, and reversed again.
\<close>

definition sorted_reverse :: "('a \<Rightarrow> real) \<Rightarrow> 'a list \<Rightarrow> 'a list" where
  "sorted_reverse key xs = rev (sort_key key (rev xs))"

definition calculate_failure_likelihood ::
  "threshold_table \<Rightarrow> (string \<times> pyvalue) list \<Rightarrow> py_error + (real \<times> issue list)" where
  "calculate_failure_likelihood th params =
     (case accumulate th params 0 [] of
        Inl e \<Rightarrow> Inl e
      | Inr (likelihood, issues) \<Rightarrow>
          Inr (min likelihood 100, sorted_reverse risk_contribution issues))"

section \<open>generate_recommendations\<close>

text \<open>
  \<open>_get_last_maintenance_time\<close> (lines 204 to 207): the history is a list of dictionaries,
  of which only the last one's \<open>"runtime"\<close> entry is read.
\<close>

definition get_last_maintenance_time :: "(string \<rightharpoonup> pyvalue) list \<Rightarrow> pyvalue" where
  "get_last_maintenance_time maintenance_history =
     (if maintenance_history = [] then Num (PyInt 0)
      else (case last maintenance_history ''runtime'' of None \<Rightarrow> Num (PyInt 0) | Some r \<Rightarrow> r))"

text \<open>
  \<open>a - b\<close>: an \<open>int\<close> for two \<open>int\<close>s, a \<open>float\<close> as soon as one operand is a
  \<open>float\<close>, TypeError when a string is involved.
\<close>

fun num_minus :: "pynum \<Rightarrow> pynum \<Rightarrow> pynum" where
  "num_minus (PyInt i) (PyInt j) = PyInt (i - j)"
| "num_minus a b = PyFloat (num_value a - num_value b)"

fun py_minus :: "pyvalue \<Rightarrow> pyvalue \<Rightarrow> py_error + pynum" where
  "py_minus (Num a) (Num b) = Inr (num_minus a b)"
| "py_minus a b = Inl TypeError"

text \<open>
  Text is a list of bytes: the literals of the source are given in UTF-8, and
  \<open>str.capitalize\<close> is modelled on ASCII letters (other bytes are kept), which covers the
  sensor names of the table.
\<close>

definition ascii_upper :: "char \<Rightarrow> char" where
  "ascii_upper c =
     (case map_of (zip ''abcdefghijklmnopqrstuvwxyz'' ''ABCDEFGHIJKLMNOPQRSTUVWXYZ'') c of
        None \<Rightarrow> c | Some u \<Rightarrow> u)"

definition ascii_lower :: "char \<Rightarrow> char" where
  "ascii_lower c =
     (case map_of (zip ''ABCDEFGHIJKLMNOPQRSTUVWXYZ'' ''abcdefghijklmnopqrstuvwxyz'') c of
        None \<Rightarrow> c | Some l \<Rightarrow> l)"

definition capitalize :: "string \<Rightarrow> string" where
  "capitalize s = (case s of [] \<Rightarrow> [] | c # cs \<Rightarrow> ascii_upper c # map ascii_lower cs)"

text \<open>\<open>sep.join(lines)\<close>.\<close>

fun join :: "string \<Rightarrow> string list \<Rightarrow> string" where
  "join sep [] = []"
| "join sep [x] = x"
| "join sep (x # y # ys) = x @ sep @ join sep (y # ys)"

text \<open>
  How an f-string prints a value (\<open>str\<close>): an \<open>int\<close> as its decimal digits with a
  minus sign when negative, a string as itself. The text of a \<open>float\<close> (the shortest
  decimal that reads back as the same double) is not part of this repository: it is the
  parameter \<open>float_str\<close>.
\<close>

fun digits :: "nat \<Rightarrow> string" where
  "digits n = (if n < 10 then [''0123456789'' ! n]
               else digits (n div 10) @ [''0123456789'' ! (n mod 10)])"

declare digits.simps [simp del]

definition int_str :: "int \<Rightarrow> string" where
  "int_str i = (if i < 0 then ''-'' @ digits (nat (- i)) else digits (nat i))"

fun num_str :: "(real \<Rightarrow> string) \<Rightarrow> pynum \<Rightarrow> string" where
  "num_str float_str (PyInt i) = int_str i"
| "num_str float_str (PyFloat x) = float_str x"

fun format_value :: "(real \<Rightarrow> string) \<Rightarrow> pyvalue \<Rightarrow> string" where
  "format_value float_str (Num x) = num_str float_str x"
| "format_value float_str (Str s) = s"

text \<open>The three messages (lines 160, 169 and 172).\<close>

definition overdue_message :: "(real \<Rightarrow> string) \<Rightarrow> pynum \<Rightarrow> string" where
  "overdue_message float_str maintenance_due =
     [CHR 0xE2, CHR 0x9A, CHR 0xA0, CHR 0xEF, CHR 0xB8, CHR 0x8F]
     @ '' OVERDUE: Regular maintenance schedule exceeded by ''
     @ num_str float_str (num_minus maintenance_due (PyInt 5000)) @ '' hours''"

definition urgent_message :: "(real \<Rightarrow> string) \<Rightarrow> issue \<Rightarrow> string" where
  "urgent_message float_str i =
     [CHR 0xF0, CHR 0x9F, CHR 0x94, CHR 0xB4] @ '' URGENT: '' @ capitalize (parameter i)
     @ '' is critically high ('' @ format_value float_str (reading i)
     @ ''). Immediate inspection required.''"

definition inspection_message :: "(real \<Rightarrow> string) \<Rightarrow> issue \<Rightarrow> string" where
  "inspection_message float_str i =
     [CHR 0xF0, CHR 0x9F, CHR 0x9F, CHR 0xA1] @ '' WARNING: '' @ capitalize (parameter i)
     @ '' is above normal ('' @ format_value float_str (reading i)
     @ ''). Schedule inspection within 48 hours.''"

text \<open>
  The loop of lines 163 to 173 appends one message for each issue: the urgent one when
  the status is CRITICAL, the inspection one for any other status.
\<close>

definition issue_message :: "(real \<Rightarrow> string) \<Rightarrow> issue \<Rightarrow> string" where
  "issue_message float_str i =
     (if status i = CRITICAL then urgent_message float_str i else inspection_message float_str i)"

fun issue_messages :: "(real \<Rightarrow> string) \<Rightarrow> issue list \<Rightarrow> string list \<Rightarrow> string list" where
  "issue_messages float_str [] recommendations = recommendations"
| "issue_messages float_str (i # rest) recommendations =
     issue_messages float_str rest (recommendations @ [issue_message float_str i])"

definition generate_recommendations ::
  "(real \<Rightarrow> string) \<Rightarrow> (string \<rightharpoonup> pyvalue) list \<Rightarrow> (string \<times> pyvalue) list \<Rightarrow> issue list
     \<Rightarrow> py_error + string" where
  "generate_recommendations float_str maintenance_history params issues =
     (if issues = [] then
        Inr ''All parameters are within normal operating ranges. Continue regular monitoring.''
      else
        (case map_of params ''runtime'' of
           None \<Rightarrow> Inl (KeyError ''runtime'')
         | Some total_runtime \<Rightarrow>
             (case py_minus total_runtime (get_last_maintenance_time maintenance_history) of
                Inl e \<Rightarrow> Inl e
              | Inr maintenance_due \<Rightarrow>
                  Inr (join [CHR 0x0A]
                        (issue_messages float_str issues
                           (if num_value maintenance_due > 5000
                            then [overdue_message float_str maintenance_due] else []))))))"

section \<open>Well-formed configurations and example inputs\<close>

text \<open>
  A spec on which \<open>assess_parameter_status\<close> raises nothing for a numeric reading: the
  critical entry is a number or a pair, the warning entry is a pair (or a list with a
  member at index 1), and the weight is positive.
\<close>

definition well_formed :: "sensor_spec \<Rightarrow> bool" where
  "well_formed s \<longleftrightarrow>
     (case critical s of Scalar c \<Rightarrow> True | Tuple t \<Rightarrow> length t = 2 | PyList t \<Rightarrow> False)
   \<and> (case warning s of Scalar w \<Rightarrow> False | Tuple t \<Rightarrow> length t = 2 | PyList t \<Rightarrow> 2 \<le> length t)
   \<and> 0 < weight s"

definition readings_configured :: "threshold_table \<Rightarrow> (string \<times> pyvalue) list \<Rightarrow> bool" where
  "readings_configured th params =
     list_all (\<lambda>(n, v). n = ''timestamp'' \<or>
        (case th n of None \<Rightarrow> False
         | Some s \<Rightarrow> well_formed s \<and> (case v of Num x \<Rightarrow> True | Str t \<Rightarrow> False))) params"

text \<open>
  What the loop of \<open>calculate_failure_likelihood\<close> appends: an issue that is not NORMAL and
  carries the whole or half of the weight of its sensor.
\<close>

definition flagged :: "threshold_table \<Rightarrow> issue \<Rightarrow> bool" where
  "flagged th i \<longleftrightarrow> status i \<noteq> NORMAL \<and>
     (\<exists>s. th (parameter i) = Some s \<and>
        (risk_contribution i = weight s \<or> risk_contribution i = weight s / 2))"

text \<open>
  Observations with the keys and number types that \<open>generate_parameters\<close> produces
  (runtime and speed are \<open>int\<close>s, the other readings \<open>float\<close>s): one with five flagged
  sensors, one with all seven critical, and one in which no sensor is flagged although
  the runtime is 6000.
\<close>

definition example_parameters :: "(string \<times> pyvalue) list" where
  "example_parameters =
     [(''timestamp'', Str ''2024-05-01T08:00:00''), (''temperature'', Num (PyFloat 85)),
      (''vibration'', Num (PyFloat (5/2))), (''pressure'', Num (PyFloat (9/10))),
      (''humidity'', Num (PyFloat 65)), (''runtime'', Num (PyInt 9000)),
      (''load'', Num (PyFloat (1/2))), (''speed'', Num (PyInt 1000))]"

definition all_critical_parameters :: "(string \<times> pyvalue) list" where
  "all_critical_parameters =
     [(''timestamp'', Str ''2024-05-01T08:00:00''), (''temperature'', Num (PyFloat 90)),
      (''vibration'', Num (PyFloat 4)), (''pressure'', Num (PyFloat 10)),
      (''humidity'', Num (PyFloat 80)), (''runtime'', Num (PyInt 9000)),
      (''load'', Num (PyFloat (19/20))), (''speed'', Num (PyInt 2600))]"

definition quiet_parameters :: "(string \<times> pyvalue) list" where
  "quiet_parameters =
     [(''timestamp'', Str ''2024-05-01T08:00:00''), (''temperature'', Num (PyFloat 70)),
      (''vibration'', Num (PyFloat (5/2))), (''pressure'', Num (PyFloat 5)),
      (''humidity'', Num (PyFloat 65)), (''runtime'', Num (PyInt 6000)),
      (''load'', Num (PyFloat (4/5))), (''speed'', Num (PyInt 2200))]"

text \<open>
  An observation of three sensors (temperature 85.0, runtime 9000, speed 1000) and the
  issues that the evaluator reports for it.
\<close>

definition small_parameters :: "(string \<times> pyvalue) list" where
  "small_parameters =
     [(''timestamp'', Str ''2024-05-01T08:00:00''), (''temperature'', Num (PyFloat 85)),
      (''runtime'', Num (PyInt 9000)), (''speed'', Num (PyInt 1000))]"

definition example_issues :: "issue list" where
  "example_issues =
     [\<lparr>parameter = ''temperature'', reading = Num (PyFloat 85), status = CRITICAL,
       risk_contribution = 25\<rparr>,
      \<lparr>parameter = ''runtime'', reading = Num (PyInt 9000), status = CRITICAL,
       risk_contribution = 20\<rparr>,
      \<lparr>parameter = ''speed'', reading = Num (PyInt 1000), status = WARNING,
       risk_contribution = 5\<rparr>]"

text \<open>
  An instance of \<open>float_str\<close> for the examples: Python's \<open>str\<close> on a \<open>float\<close> of whole
  value below \<open>10^16\<close>, the digits followed by \<open>.0\<close>. On other floats it is not
  Python's \<open>str\<close>, and no example prints one.
\<close>

definition whole_float_str :: "real \<Rightarrow> string" where
  "whole_float_str x = int_str \<lfloor>x\<rfloor> @ ''.0''"




text \<open>Two threshold tables that agree on every warning, critical and weight entry.\<close>

definition differ_only_in_normal :: "threshold_table \<Rightarrow> threshold_table \<Rightarrow> bool" where
  "differ_only_in_normal t1 t2 \<longleftrightarrow>
     (\<forall>n. rel_option (\<lambda>a b. warning a = warning b \<and> critical a = critical b \<and> weight a = weight b)
            (t1 n) (t2 n))"

text \<open>The configured table with every normal range replaced by (0, 1).\<close>

definition thresholds_other_normal :: threshold_table where
  "thresholds_other_normal = (\<lambda>n. map_option (\<lambda>s. s\<lparr>normal := Tuple [0, 1]\<rparr>) (thresholds n))"

section \<open>Properties of assess_parameter_status\<close>

text \<open>
  C4. For every spec whose critical bound is a scalar \<open>c\<close> and every reading above \<open>c\<close>,
  \<open>assess_parameter_status\<close> returns CRITICAL with risk factor 1.0, whatever the warning
  range of the spec is.
\<close>

theorem scalar_critical_bound_exceeded:
  assumes "th param_name = Some threshold"
    and "critical threshold = Scalar c"
    and "c < num_value x"
  shows "assess_parameter_status th param_name (Num x) = Inr (CRITICAL, 1)"
  using assms by (simp add: assess_parameter_status_def critical_fires_def)

theorem scalar_critical_bound_exceeded_witness:
  "assess_parameter_status thresholds ''temperature'' (Num (PyFloat 85)) = Inr (CRITICAL, 1)"
  using scalar_critical_bound_exceeded [of thresholds "''temperature''" _ 80 "PyFloat 85"]
  by (simp add: thresholds_def)

text \<open>
  C3. For every spec whose critical bound is an interval \<open>(lo, hi)\<close>,
  \<open>assess_parameter_status\<close> returns CRITICAL with risk factor 1.0 exactly when the reading
  is below \<open>lo\<close> or above \<open>hi\<close>; inside the interval it returns no CRITICAL status at all.
\<close>

theorem interval_critical_bound_exterior:
  assumes "th param_name = Some threshold"
    and "critical threshold = Tuple [lo, hi]"
  shows "(assess_parameter_status th param_name (Num x) = Inr (CRITICAL, 1))
           = (num_value x < lo \<or> hi < num_value x)
       \<and> ((\<exists>r. assess_parameter_status th param_name (Num x) = Inr (CRITICAL, r))
           = (num_value x < lo \<or> hi < num_value x))"
  using assms
  by (auto simp: assess_parameter_status_def critical_fires_def outside_def item_def
           split: sum.splits if_splits)

theorem interval_critical_bound_exterior_witness:
  "assess_parameter_status thresholds ''pressure'' (Num (PyFloat (1/2))) = Inr (CRITICAL, 1)
   \<and> assess_parameter_status thresholds ''pressure'' (Num (PyFloat (19/2))) = Inr (CRITICAL, 1)
   \<and> assess_parameter_status thresholds ''pressure'' (Num (PyFloat 5)) \<noteq> Inr (CRITICAL, 1)"
  using interval_critical_bound_exterior [of thresholds "''pressure''" _ 1 9 "PyFloat (1/2)"]
    interval_critical_bound_exterior [of thresholds "''pressure''" _ 1 9 "PyFloat (19/2)"]
    interval_critical_bound_exterior [of thresholds "''pressure''" _ 1 9 "PyFloat 5"]
  by (simp add: thresholds_def)




text \<open>
  A tuple never reaches line 126: it is tested on both sides. Every configured warning
  entry is a tuple, so no configured spec reaches that line.
\<close>

lemma tuple_warning_tested_on_both_sides:
  assumes "th param_name = Some threshold"
    and "critical_fires (critical threshold) (Num x) = Inr False"
    and "warning threshold = Tuple [lo, hi]"
  shows "assess_parameter_status th param_name (Num x)
         = (if num_value x < lo \<or> hi < num_value x then Inr (WARNING, 1/2) else Inr (NORMAL, 0))"
  using assms
  by (simp add: assess_parameter_status_def warning_fires_def outside_def item_def)

lemma configured_warning_entries_are_tuples:
  "thresholds n = Some s \<Longrightarrow> \<exists>t. warning s = Tuple t \<and> length t = 2"
  by (auto simp: thresholds_def split: if_splits)

text \<open>
  C1 (the code departs from the claim). The configured temperature spec has the normal
  range (20, 60) and the warning tuple (60, 80). Every configured warning entry is a
  tuple, so line 124 tests the reading on both sides: 30 is below 60 and is assessed
  WARNING with risk factor 0.5, although it lies strictly inside the normal range.
\<close>

theorem temperature_inside_normal_range_assessed_warning:
  "assess_parameter_status thresholds ''temperature'' (Num (PyFloat 30)) = Inr (WARNING, 1/2)"
  by (simp add: assess_parameter_status_def thresholds_def critical_fires_def
        warning_fires_def outside_def item_def)

section \<open>Properties of calculate_failure_likelihood\<close>

subsection \<open>The configured table and total assessment\<close>

lemma thresholds_well_formed: "thresholds n = Some s \<Longrightarrow> well_formed s"
  by (auto simp: thresholds_def well_formed_def split: if_splits)

lemma assess_risk_factor:
  assumes "assess_parameter_status th n v = Inr (st, rf)"
  shows "(st = NORMAL \<and> rf = 0) \<or> (st = WARNING \<and> rf = 1/2) \<or> (st = CRITICAL \<and> rf = 1)"
  using assms
  by (auto simp: assess_parameter_status_def split: option.splits sum.splits if_splits)

lemma outside_total: "length t = 2 \<Longrightarrow> \<exists>b. outside (Num x) t = Inr b"
  by (auto simp: outside_def item_def)

lemma assess_total:
  assumes "th n = Some s" and "well_formed s"
  shows "\<exists>r. assess_parameter_status th n (Num x) = Inr r"
proof -
  from assms(2) obtain c where c: "critical_fires (critical s) (Num x) = Inr c"
    using outside_total[of _ x]
    by (cases "critical s") (auto simp: well_formed_def critical_fires_def)
  from assms(2) obtain w where w: "warning_fires (warning s) (Num x) = Inr w"
    using outside_total[of _ x]
    by (cases "warning s") (auto simp: well_formed_def warning_fires_def item_def)
  have "assess_parameter_status th n (Num x)
        = (if c then Inr (CRITICAL, 1) else if w then Inr (WARNING, 1/2) else Inr (NORMAL, 0))"
    using assms(1) c w by (simp add: assess_parameter_status_def)
  then show ?thesis by metis
qed

subsection \<open>The accumulation loop\<close>

lemma accumulate_extends:
  "accumulate th params l is = Inr (l', is') \<Longrightarrow>
   \<exists>new. is' = is @ new \<and> l' = l + sum_list (map risk_contribution new)
      \<and> subseq (map parameter new) (map fst params)
      \<and> (\<forall>i \<in> set new. (parameter i, reading i) \<in> set params
             \<and> parameter i \<noteq> ''timestamp'' \<and> flagged th i)"
proof (induction th params l "is" rule: accumulate.induct)
  case (1 th likelihood issues)
  then show ?case by simp
next
  case (2 th param_name v rest likelihood issues)
  show ?case
  proof (cases "param_name = ''timestamp''")
    case True
    with 2 show ?thesis by (auto simp: subseq_Cons')
  next
    case False
    from "2.prems" False obtain st rf s where
      a: "assess_parameter_status th param_name v = Inr (st, rf)" and
      s: "th param_name = Some s"
      by (auto split: sum.splits option.splits)
    let ?i = "\<lparr>parameter = param_name, reading = v, status = st,
               risk_contribution = rf * weight s\<rparr>"
    let ?is = "if st \<noteq> NORMAL then issues @ [?i] else issues"
    from "2.prems" False a s have
      r: "accumulate th rest (likelihood + rf * weight s) ?is = Inr (l', is')"
      by simp
    from "2.IH"(1)[OF False a _ s r] obtain new where
      n: "is' = ?is @ new" "l' = likelihood + rf * weight s + sum_list (map risk_contribution new)"
         "subseq (map parameter new) (map fst rest)"
         "\<forall>i \<in> set new. (parameter i, reading i) \<in> set rest
             \<and> parameter i \<noteq> ''timestamp'' \<and> flagged th i"
      by auto
    show ?thesis
    proof (cases "st = NORMAL")
      case True
      with assess_risk_factor[OF a] have "rf = 0" by auto
      with True n show ?thesis by (auto simp: subseq_Cons')
    next
      case nn: False
      with assess_risk_factor[OF a] have "rf = 1 \<or> rf = 1/2" by auto
      with nn s have "flagged th ?i" by (auto simp: flagged_def)
      with nn n False show ?thesis
        by (intro exI[of _ "?i # new"]) auto
    qed
  qed
qed

lemma accumulate_total:
  "readings_configured th params \<Longrightarrow> \<exists>r. accumulate th params l is = Inr r"
proof (induction th params l "is" rule: accumulate.induct)
  case (1 th likelihood issues)
  then show ?case by simp
next
  case (2 th param_name v rest likelihood issues)
  show ?case
  proof (cases "param_name = ''timestamp''")
    case True
    with 2 show ?thesis by (simp add: readings_configured_def)
  next
    case False
    with "2.prems" obtain s x where s: "th param_name = Some s" "well_formed s" "v = Num x"
      by (auto simp: readings_configured_def split: option.splits pyvalue.splits)
    from assess_total[of th param_name s x] s obtain st rf where
      a: "assess_parameter_status th param_name v = Inr (st, rf)" by auto
    from "2.prems" have "readings_configured th rest" by (simp add: readings_configured_def)
    from "2.IH"(1)[OF False a _ s(1) this] False a s(1) show ?thesis by simp
  qed
qed


lemma flagged_positive:
  assumes "readings_configured th params" and "(parameter i, reading i) \<in> set params"
    and "parameter i \<noteq> ''timestamp''" and "flagged th i"
  shows "0 < risk_contribution i"
proof -
  from assms(4) obtain s where s: "th (parameter i) = Some s"
    "risk_contribution i = weight s \<or> risk_contribution i = weight s / 2"
    by (auto simp: flagged_def)
  from assms(1,2,3) s(1) have "well_formed s"
    by (auto simp: readings_configured_def list_all_iff)
  then have "0 < weight s" by (simp add: well_formed_def)
  with s(2) show ?thesis by auto
qed

lemma sum_list_insort_key:
  "sum_list (map f (insort_key f x xs)) = (f x :: real) + sum_list (map f xs)"
  by (induction xs) (auto simp: algebra_simps)

lemma sum_list_sorted_reverse:
  "sum_list (map f (sorted_reverse f xs)) = sum_list (map f xs)"
proof -
  have "sum_list (map f (sort_key f ys)) = sum_list (map f ys)" for ys :: "'a list"
    by (induction ys) (simp_all add: sum_list_insort_key)
  moreover have "sum_list (map f (rev ys)) = sum_list (map f ys)" for ys :: "'a list"
    by (simp only: rev_map [symmetric] sum_list_rev)
  ultimately show ?thesis by (simp only: sorted_reverse_def)
qed

lemma sorted_reverse_descending:
  "sorted_wrt (\<lambda>a b. f b \<le> f a) (sorted_reverse f xs)"
proof -
  have "sorted (map f (sort_key f (rev xs)))" by (rule sorted_sort_key)
  then have "sorted_wrt (\<lambda>a b. f a \<le> f b) (sort_key f (rev xs))" by (simp add: sorted_map)
  then show ?thesis by (simp add: sorted_reverse_def sorted_wrt_rev)
qed

lemma sorted_reverse_stable:
  "filter (\<lambda>y. f y = k) (sorted_reverse f xs) = filter (\<lambda>y. f y = k) xs"
  by (simp add: sorted_reverse_def rev_filter sort_key_stable flip: rev_filter)

lemma sorted_reverse_Nil_iff: "sorted_reverse f xs = [] \<longleftrightarrow> xs = []"
proof -
  have "length (sorted_reverse f xs) = length xs" by (simp add: sorted_reverse_def)
  then show ?thesis by (metis length_0_conv)
qed

lemma calculate_result:
  assumes "readings_configured th params"
  shows "\<exists>unsorted. accumulate th params 0 [] = Inr (sum_list (map risk_contribution unsorted), unsorted)
          \<and> calculate_failure_likelihood th params
              = Inr (min (sum_list (map risk_contribution unsorted)) 100,
                     sorted_reverse risk_contribution unsorted)
          \<and> subseq (map parameter unsorted) (map fst params)
          \<and> (\<forall>i \<in> set unsorted. status i \<noteq> NORMAL \<and> 0 < risk_contribution i)"
proof -
  from accumulate_total[OF assms] obtain l "is" where a: "accumulate th params 0 [] = Inr (l, is)"
    by fastforce
  from accumulate_extends[OF a] obtain new where
    n: "is = new" "l = sum_list (map risk_contribution new)"
       "subseq (map parameter new) (map fst params)"
       "\<forall>i \<in> set new. (parameter i, reading i) \<in> set params
             \<and> parameter i \<noteq> ''timestamp'' \<and> flagged th i"
    by auto
  from n(4) flagged_positive[OF assms] have "\<forall>i \<in> set new. status i \<noteq> NORMAL \<and> 0 < risk_contribution i"
    by (auto simp: flagged_def)
  with a n(1,2,3) show ?thesis by (auto simp: calculate_failure_likelihood_def)
qed

subsection \<open>The two example observations, evaluated\<close>

lemmas evaluator_defs =
  calculate_failure_likelihood_def assess_parameter_status_def thresholds_def
  critical_fires_def warning_fires_def outside_def item_def sorted_reverse_def

lemma example_configured: "readings_configured thresholds example_parameters"
  by (simp add: readings_configured_def example_parameters_def thresholds_def well_formed_def)

lemma all_critical_configured: "readings_configured thresholds all_critical_parameters"
  by (simp add: readings_configured_def all_critical_parameters_def thresholds_def well_formed_def)

lemma example_report:
  "calculate_failure_likelihood thresholds example_parameters =
     Inr (70,
       [\<lparr>parameter = ''temperature'', reading = Num (PyFloat 85), status = CRITICAL,
         risk_contribution = 25\<rparr>,
        \<lparr>parameter = ''runtime'', reading = Num (PyInt 9000), status = CRITICAL,
         risk_contribution = 20\<rparr>,
        \<lparr>parameter = ''pressure'', reading = Num (PyFloat (9/10)), status = CRITICAL,
         risk_contribution = 15\<rparr>,
        \<lparr>parameter = ''load'', reading = Num (PyFloat (1/2)), status = WARNING,
         risk_contribution = 5\<rparr>,
        \<lparr>parameter = ''speed'', reading = Num (PyInt 1000), status = WARNING,
         risk_contribution = 5\<rparr>])"
  by (simp add: evaluator_defs example_parameters_def)

lemma small_report:
  "calculate_failure_likelihood thresholds small_parameters = Inr (50, example_issues)"
  by (simp add: evaluator_defs small_parameters_def example_issues_def)

lemma all_critical_report:
  "\<exists>issues. calculate_failure_likelihood thresholds all_critical_parameters = Inr (100, issues)"
  by (simp add: evaluator_defs all_critical_parameters_def)

subsection \<open>The report\<close>

text \<open>
  C2. For every parameter set whose keys other than \<open>"timestamp"\<close> all have a (well-formed)
  configured spec and whose readings are numbers, \<open>calculate_failure_likelihood\<close> returns
  a report, and its score lies between 0 and 100: it is clamped above by
  \<open>min(likelihood, 100)\<close>, and it is not negative because every risk factor is 0, 0.5 or
  1 and every weight is positive.
\<close>

theorem score_between_0_and_100:
  assumes "readings_configured th params"
  shows "\<exists>score issues. calculate_failure_likelihood th params = Inr (score, issues)
           \<and> 0 \<le> score \<and> score \<le> 100"
proof -
  from calculate_result[OF assms] obtain unsorted where
    c: "calculate_failure_likelihood th params
          = Inr (min (sum_list (map risk_contribution unsorted)) 100,
                 sorted_reverse risk_contribution unsorted)"
    and p: "\<forall>i \<in> set unsorted. status i \<noteq> NORMAL \<and> 0 < risk_contribution i"
    by blast
  from p have "0 \<le> sum_list (map risk_contribution unsorted)"
    by (intro sum_list_nonneg) auto
  with c show ?thesis by simp
qed

theorem score_between_0_and_100_witness:
  "readings_configured thresholds all_critical_parameters
   \<and> (\<exists>score issues. calculate_failure_likelihood thresholds all_critical_parameters = Inr (score, issues)
           \<and> 0 \<le> score \<and> score \<le> 100)"
  using score_between_0_and_100 [OF all_critical_configured] all_critical_configured by blast

text \<open>
  C5. For every such parameter set, the issues of the report are in descending order of
  \<open>risk_contribution\<close>, and issues of equal contribution keep the relative order in which
  the loop appended them, which is the iteration order of the parameters.
\<close>

theorem issues_sorted_descending_stable:
  assumes "readings_configured th params"
  shows "\<exists>likelihood unsorted score issues.
           accumulate th params 0 [] = Inr (likelihood, unsorted)
         \<and> calculate_failure_likelihood th params = Inr (score, issues)
         \<and> subseq (map parameter unsorted) (map fst params)
         \<and> sorted_wrt (\<lambda>a b. risk_contribution b \<le> risk_contribution a) issues
         \<and> (\<forall>k. filter (\<lambda>i. risk_contribution i = k) issues
                = filter (\<lambda>i. risk_contribution i = k) unsorted)"
proof -
  from calculate_result[OF assms] obtain unsorted where
    "accumulate th params 0 [] = Inr (sum_list (map risk_contribution unsorted), unsorted)"
    "calculate_failure_likelihood th params
          = Inr (min (sum_list (map risk_contribution unsorted)) 100,
                 sorted_reverse risk_contribution unsorted)"
    "subseq (map parameter unsorted) (map fst params)"
    by blast
  then show ?thesis
    using sorted_reverse_descending[of risk_contribution unsorted]
      sorted_reverse_stable[of risk_contribution _ unsorted]
    by blast
qed

theorem issues_sorted_descending_stable_witness:
  "readings_configured thresholds example_parameters
   \<and> (\<exists>likelihood unsorted score issues.
           accumulate thresholds example_parameters 0 [] = Inr (likelihood, unsorted)
         \<and> calculate_failure_likelihood thresholds example_parameters = Inr (score, issues)
         \<and> subseq (map parameter unsorted) (map fst example_parameters)
         \<and> sorted_wrt (\<lambda>a b. risk_contribution b \<le> risk_contribution a) issues
         \<and> (\<forall>k. filter (\<lambda>i. risk_contribution i = k) issues
                = filter (\<lambda>i. risk_contribution i = k) unsorted))"
  using issues_sorted_descending_stable [OF example_configured] example_configured by blast

text \<open>
  C9. For every such parameter set, the score of the report is \<open>min(S, 100)\<close>, where \<open>S\<close> is
  the sum of \<open>risk_contribution\<close> over the issues of the report; no issue is NORMAL; and
  the score is 0 exactly when there is no issue.
\<close>

theorem score_is_clamped_sum_of_issues:
  assumes "readings_configured th params"
  shows "\<exists>score issues. calculate_failure_likelihood th params = Inr (score, issues)
           \<and> score = min (sum_list (map risk_contribution issues)) 100
           \<and> (\<forall>i \<in> set issues. status i \<noteq> NORMAL)
           \<and> (score = 0 \<longleftrightarrow> issues = [])"
proof -
  from calculate_result[OF assms] obtain unsorted where
    c: "calculate_failure_likelihood th params
          = Inr (min (sum_list (map risk_contribution unsorted)) 100,
                 sorted_reverse risk_contribution unsorted)"
    and p: "\<forall>i \<in> set unsorted. status i \<noteq> NORMAL \<and> 0 < risk_contribution i"
    by blast
  let ?S = "sum_list (map risk_contribution unsorted)"
  have z: "(min ?S 100 = 0) = (unsorted = [])"
  proof (cases unsorted)
    case Nil
    then show ?thesis by simp
  next
    case (Cons i rest)
    with p have "\<forall>x \<in> set (map risk_contribution rest). 0 \<le> x" by auto
    then have "0 \<le> sum_list (map risk_contribution rest)" by (intro sum_list_nonneg) blast
    moreover from Cons p have "0 < risk_contribution i" by simp
    ultimately show ?thesis using Cons by simp
  qed
  have s: "set (sorted_reverse risk_contribution unsorted) = set unsorted"
    by (simp add: sorted_reverse_def)
  show ?thesis
    using c p z s
    by (simp add: sum_list_sorted_reverse sorted_reverse_Nil_iff)
qed

theorem score_is_clamped_sum_of_issues_witness:
  "readings_configured thresholds example_parameters
   \<and> (\<exists>score issues. calculate_failure_likelihood thresholds example_parameters = Inr (score, issues)
           \<and> score = min (sum_list (map risk_contribution issues)) 100
           \<and> (\<forall>i \<in> set issues. status i \<noteq> NORMAL)
           \<and> (score = 0 \<longleftrightarrow> issues = []))"
  using score_is_clamped_sum_of_issues [OF example_configured] example_configured by blast

subsection \<open>Unknown sensor names\<close>

lemma accumulate_unknown:
  assumes "n \<noteq> ''timestamp''" and "th n = None"
  shows "\<exists>e. accumulate th (pre @ (n, v) # post) l is = Inl e"
proof (induction pre arbitrary: l "is")
  case Nil
  from assms show ?case by (simp add: assess_parameter_status_def)
next
  case (Cons p pre)
  obtain m w where p: "p = (m, w)" by (cases p)
  show ?case using Cons[of _ _] unfolding p
    by (auto split: sum.splits option.splits)
qed

lemma accumulate_unknown_first:
  assumes "n \<noteq> ''timestamp''" and "th n = None"
  shows "readings_configured th pre \<Longrightarrow> accumulate th (pre @ (n, v) # post) l is = Inl (KeyError n)"
proof (induction pre arbitrary: l "is")
  case Nil
  from assms show ?case by (simp add: assess_parameter_status_def)
next
  case (Cons p pre)
  obtain m w where p: "p = (m, w)" by (cases p)
  from Cons.prems have rest: "readings_configured th pre" by (simp add: readings_configured_def)
  show ?case
  proof (cases "m = ''timestamp''")
    case True
    with Cons.IH[OF rest] p show ?thesis by simp
  next
    case False
    with Cons.prems p obtain s x where s: "th m = Some s" "well_formed s" "w = Num x"
      by (auto simp: readings_configured_def split: option.splits pyvalue.splits)
    from assess_total[of th m s x] s obtain st rf where
      "assess_parameter_status th m w = Inr (st, rf)" by auto
    with Cons.IH[OF rest] p False s(1) show ?thesis by simp
  qed
qed

text \<open>
  C6. For every parameter set that contains a key other than \<open>"timestamp"\<close> with no spec
  in the table, \<open>calculate_failure_likelihood\<close> raises: it returns no report and does
  not skip the entry. When the entries before that key are configured readings, the
  exception is the KeyError of that key, raised by \<open>self.thresholds[param_name]\<close>.
\<close>

theorem unknown_sensor_raises:
  assumes "params = pre @ (n, v) # post" and "n \<noteq> ''timestamp''" and "th n = None"
  shows "(\<exists>e. calculate_failure_likelihood th params = Inl e)
       \<and> (readings_configured th pre \<longrightarrow> calculate_failure_likelihood th params = Inl (KeyError n))"
  using accumulate_unknown[of n th pre v post 0 "[]"]
    accumulate_unknown_first[of n th pre v post 0 "[]"] assms
  by (auto simp: calculate_failure_likelihood_def)

theorem unknown_sensor_raises_witness:
  "calculate_failure_likelihood thresholds
     [(''temperature'', Num (PyFloat 70)), (''torque'', Num (PyFloat 3)), (''speed'', Num (PyInt 2200))]
   = Inl (KeyError ''torque'')"
  using unknown_sensor_raises
    [of "[(''temperature'', Num (PyFloat 70)), (''torque'', Num (PyFloat 3)), (''speed'', Num (PyInt 2200))]"
      "[(''temperature'', Num (PyFloat 70))]" "''torque''" "Num (PyFloat 3)"
      "[(''speed'', Num (PyInt 2200))]" thresholds]
  by (simp add: readings_configured_def thresholds_def well_formed_def)

subsection \<open>The normal range is never read\<close>

lemma assess_normal_unread:
  assumes "differ_only_in_normal t1 t2"
  shows "assess_parameter_status t1 n v = assess_parameter_status t2 n v"
proof -
  from assms have "rel_option (\<lambda>a b. warning a = warning b \<and> critical a = critical b \<and> weight a = weight b)
            (t1 n) (t2 n)" by (simp add: differ_only_in_normal_def)
  then show ?thesis
    by (cases "t1 n"; cases "t2 n") (auto simp: assess_parameter_status_def split: sum.splits)
qed

lemma accumulate_normal_unread:
  assumes "differ_only_in_normal t1 t2"
  shows "accumulate t1 params l is = accumulate t2 params l is"
proof (induction params arbitrary: l "is")
  case Nil
  show ?case by simp
next
  case (Cons p params)
  obtain m w where p: "p = (m, w)" by (cases p)
  from assms have r: "rel_option (\<lambda>a b. warning a = warning b \<and> critical a = critical b \<and> weight a = weight b)
            (t1 m) (t2 m)" by (simp add: differ_only_in_normal_def)
  show ?case unfolding p using r Cons assess_normal_unread[OF assms, of m w]
    by (cases "t1 m"; cases "t2 m") (auto split: sum.splits)
qed

text \<open>
  C10. \<open>assess_parameter_status\<close> never reads a normal range: two threshold tables with
  the same sensors that agree on every warning entry, critical entry and weight give the
  same result of \<open>assess_parameter_status\<close> and of \<open>calculate_failure_likelihood\<close> on every
  input, errors included.
\<close>

theorem normal_range_never_read:
  assumes "differ_only_in_normal t1 t2"
  shows "assess_parameter_status t1 n v = assess_parameter_status t2 n v
       \<and> calculate_failure_likelihood t1 params = calculate_failure_likelihood t2 params"
  using assess_normal_unread[OF assms] accumulate_normal_unread[OF assms]
  by (simp add: calculate_failure_likelihood_def)

theorem normal_range_never_read_witness:
  "differ_only_in_normal thresholds thresholds_other_normal
   \<and> thresholds_other_normal ''temperature'' \<noteq> thresholds ''temperature''
   \<and> assess_parameter_status thresholds ''temperature'' (Num (PyFloat 30))
       = assess_parameter_status thresholds_other_normal ''temperature'' (Num (PyFloat 30))
   \<and> calculate_failure_likelihood thresholds example_parameters
       = calculate_failure_likelihood thresholds_other_normal example_parameters"
proof -
  have d: "differ_only_in_normal thresholds thresholds_other_normal"
    by (simp add: differ_only_in_normal_def thresholds_other_normal_def option.rel_map option.rel_refl)
  have "thresholds_other_normal ''temperature'' \<noteq> thresholds ''temperature''"
    by (simp add: thresholds_other_normal_def thresholds_def)
  with d normal_range_never_read [OF d] show ?thesis by simp
qed

section \<open>Properties of generate_recommendations\<close>

lemma issue_messages_map:
  "issue_messages float_str issues recommendations
   = recommendations @ map (issue_message float_str) issues"
  by (induction issues arbitrary: recommendations) simp_all

lemma prefix_join: "prefix x (join sep (x # xs))"
  by (cases xs) simp_all

lemma num_value_minus: "num_value (num_minus a b) = num_value a - num_value b"
  by (cases a; cases b) simp_all

text \<open>
  C8 (as the code has it). For every issues list that is not empty and every parameter
  set whose runtime exceeds the last maintenance runtime by more than 5000, the text of
  \<open>generate_recommendations\<close> begins with the overdue-maintenance message, followed, one
  per line, by a message for each issue in order: the urgent one for a CRITICAL issue, the
  scheduled-inspection one for any other. For the empty issues list the text is the
  all-normal sentence, whatever the parameters and the maintenance history are.
\<close>

theorem overdue_message_prepended:
  "generate_recommendations float_str maintenance_history params []
     = Inr ''All parameters are within normal operating ranges. Continue regular monitoring.''
   \<and> (issues \<noteq> []
        \<and> map_of params ''runtime'' = Some (Num runtime)
        \<and> get_last_maintenance_time maintenance_history = Num last_runtime
        \<and> num_value runtime - num_value last_runtime > 5000
      \<longrightarrow> generate_recommendations float_str maintenance_history params issues
           = Inr (join [CHR 0x0A] (overdue_message float_str (num_minus runtime last_runtime)
                                     # map (issue_message float_str) issues))
        \<and> prefix (overdue_message float_str (num_minus runtime last_runtime))
             (join [CHR 0x0A] (overdue_message float_str (num_minus runtime last_runtime)
                                 # map (issue_message float_str) issues)))"
  by (simp add: generate_recommendations_def issue_messages_map prefix_join num_value_minus)

theorem overdue_message_prepended_witness:
  "generate_recommendations whole_float_str [] small_parameters []
     = Inr ''All parameters are within normal operating ranges. Continue regular monitoring.''
   \<and> generate_recommendations whole_float_str [] small_parameters example_issues
     = Inr ([CHR 0xE2, CHR 0x9A, CHR 0xA0, CHR 0xEF, CHR 0xB8, CHR 0x8F]
          @ '' OVERDUE: Regular maintenance schedule exceeded by 4000 hours'' @ [CHR 0x0A]
          @ [CHR 0xF0, CHR 0x9F, CHR 0x94, CHR 0xB4]
          @ '' URGENT: Temperature is critically high (85.0). Immediate inspection required.'' @ [CHR 0x0A]
          @ [CHR 0xF0, CHR 0x9F, CHR 0x94, CHR 0xB4]
          @ '' URGENT: Runtime is critically high (9000). Immediate inspection required.'' @ [CHR 0x0A]
          @ [CHR 0xF0, CHR 0x9F, CHR 0x9F, CHR 0xA1]
          @ '' WARNING: Speed is above normal (1000). Schedule inspection within 48 hours.'')"
  using overdue_message_prepended [of whole_float_str "[]" small_parameters example_issues
      "PyInt 9000" "PyInt 0"]
  by (simp add: get_last_maintenance_time_def small_parameters_def example_issues_def
     issue_message_def overdue_message_def urgent_message_def inspection_message_def
     capitalize_def ascii_upper_def ascii_lower_def whole_float_str_def int_str_def digits.simps)

text \<open>
  C8 as stated, for every issues list, fails on the empty one: line 152 returns the
  all-normal sentence before the runtime is read. The observation \<open>quiet_parameters\<close>
  has no issue and a runtime of 6000 with no maintenance on record.
\<close>

theorem no_issues_overdue_not_reported:
  "calculate_failure_likelihood thresholds quiet_parameters = Inr (0, [])
   \<and> map_of quiet_parameters ''runtime'' = Some (Num (PyInt 6000))
   \<and> get_last_maintenance_time [] = Num (PyInt 0)
   \<and> num_value (PyInt 6000) - num_value (PyInt 0) > 5000
   \<and> generate_recommendations whole_float_str [] quiet_parameters []
       = Inr ''All parameters are within normal operating ranges. Continue regular monitoring.''
   \<and> \<not> prefix (overdue_message whole_float_str (num_minus (PyInt 6000) (PyInt 0)))
          ''All parameters are within normal operating ranges. Continue regular monitoring.''"
  by (simp add: evaluator_defs quiet_parameters_def generate_recommendations_def
        get_last_maintenance_time_def overdue_message_def)

end
